theory Spec2Isabelle
  imports Main "HOL-Library.Word" "HOL-Library.Sublist"
begin

unbundle bit_operations_syntax

section \<open>Strings of the runtime\<close>

text \<open>
  A JavaScript string is a sequence of UTF-16 code units. String literals of the source
  that are pure ASCII are written \<open>lit ''...''\<close>; the Gujarati literals are written as the
  code units they consist of (all of them in the block U+0A80 .. U+0AFF).
\<close>

type_synonym jsstring = "16 word list"

definition lit :: "string \<Rightarrow> jsstring" where
  "lit s = map of_char s"

text \<open>
  \<open>String.prototype.toLowerCase\<close>, the full lower-case mapping of Unicode without
  regard to locale. The case tables of the runtime are not part of the repository. The
  model has every mapping whose result contains a code unit of Basic Latin: the capital
  letters U+0041 .. U+005A go to their small letters, the Kelvin sign U+212A goes to
  \<open>k\<close> (U+006B), and the capital I with dot above U+0130 goes to the two code units
  \<open>i\<close> (U+0069) and the combining dot above U+0307. Every other code unit is left in
  place: the runtime maps the cased letters among them to letters outside Basic Latin
  (surrogate pairs to surrogate pairs), and the Gujarati block U+0A80 .. U+0AFF has no
  case. The keywords of this program consist of code units of Basic Latin and of the
  Gujarati block only, so a keyword occurs in the runtime's result exactly where it occurs
  in the model's.
\<close>

definition lowerUnit :: "16 word \<Rightarrow> jsstring" where
  "lowerUnit c =
     (if 0x41 \<le> c \<and> c \<le> 0x5A then [c + 0x20]
      else if c = 0x212A then [0x6B]
      else if c = 0x0130 then [0x69, 0x0307]
      else [c])"

definition toLowerCase :: "jsstring \<Rightarrow> jsstring" where
  "toLowerCase s = concat (map lowerUnit s)"

text \<open>
  \<open>String.prototype.includes\<close> with one argument: the search string occurs at some
  position of the receiver.
\<close>

fun str_includes :: "jsstring \<Rightarrow> jsstring \<Rightarrow> bool" where
  "str_includes [] k = (k = [])"
| "str_includes (c # cs) k = (prefix k (c # cs) \<or> str_includes cs k)"

section \<open>Notices\<close>

datatype category = EXAM | ASSIGNMENT | SCHEDULE | ANNOUNCEMENT | DEADLINE | OTHER

text \<open>
  The object built in \<open>fetchNotifications\<close>. The fields \<open>id\<close> and \<open>text\<close> of the source
  are \<open>id_str\<close> and \<open>text_str\<close> here.
\<close>

record notice =
  id_str :: jsstring
  text_str :: jsstring
  link :: "jsstring option"
  isNew :: bool
  isUrgent :: bool
  timestamp :: jsstring
  category :: category

section \<open>Classifier\<close>

definition urgentKeywords :: "jsstring list" where
  "urgentKeywords =
     [lit ''urgent'', lit ''immediate'', lit ''important'', lit ''deadline'', lit ''today'',
      lit ''tomorrow'', lit ''asap'', lit ''emergency'', lit ''critical'', lit ''required'',
      lit ''mandatory'', lit ''due'',
      [0x0A85, 0x0A97, 0x0AA4, 0x0ACD, 0x0AAF, 0x0AA8, 0x0AC0],
      [0x0AA4, 0x0ABE, 0x0A95, 0x0AC0, 0x0AA6, 0x0AA8, 0x0AC0]]"

definition detectUrgency :: "jsstring \<Rightarrow> bool" where
  "detectUrgency text_in =
     list_ex (\<lambda>keyword. str_includes (toLowerCase text_in) (toLowerCase keyword))
       urgentKeywords"

definition examKeywords :: "jsstring list" where
  "examKeywords =
     [lit ''exam'', lit ''examination'', lit ''test'', lit ''assessment'',
      [0x0AAA, 0x0AB0, 0x0AC0, 0x0A95, 0x0ACD, 0x0AB7, 0x0ABE]]"

definition assignmentKeywords :: "jsstring list" where
  "assignmentKeywords =
     [lit ''assignment'', lit ''homework'', lit ''submission'',
      [0x0AB8, 0x0ACD, 0x0AB5, 0x0ABE, 0x0AA7, 0x0ACD, 0x0AAF, 0x0ABE, 0x0AAF]]"

definition scheduleKeywords :: "jsstring list" where
  "scheduleKeywords =
     [lit ''schedule'', lit ''timetable'', lit ''dates'',
      [0x0AB8, 0x0AAE, 0x0AAF, 0x0AAA, 0x0AA4, 0x0ACD, 0x0AB0, 0x0A95]]"

definition announcementKeywords :: "jsstring list" where
  "announcementKeywords =
     [lit ''announcement'', lit ''notice'', lit ''circular'',
      [0x0AB8, 0x0AC2, 0x0A9A, 0x0AA8, 0x0ABE]]"

definition deadlineKeywords :: "jsstring list" where
  "deadlineKeywords =
     [lit ''last date'', lit ''deadline'', lit ''due date'',
      [0x0A85, 0x0A82, 0x0AA4, 0x0ABF, 0x0AAE, 0x20, 0x0AA4, 0x0ABE, 0x0AB0, 0x0AC0, 0x0A96]]"

text \<open>
  \<open>Object.entries(categories)\<close>: the keys are not integer-like, so the entries come in
  the order in which the object literal lists them.
\<close>

definition categories :: "(category \<times> jsstring list) list" where
  "categories =
     [(EXAM, examKeywords), (ASSIGNMENT, assignmentKeywords), (SCHEDULE, scheduleKeywords),
      (ANNOUNCEMENT, announcementKeywords), (DEADLINE, deadlineKeywords)]"

text \<open>The \<open>for ... of\<close> loop of \<open>categorizeNotification\<close> over the remaining entries.\<close>

fun categorizeLoop :: "(category \<times> jsstring list) list \<Rightarrow> jsstring \<Rightarrow> category" where
  "categorizeLoop [] text_in = OTHER"
| "categorizeLoop ((cat, keywords) # entries) text_in =
     (if list_ex (\<lambda>keyword. str_includes (toLowerCase text_in) (toLowerCase keyword)) keywords
      then cat
      else categorizeLoop entries text_in)"

definition categorizeNotification :: "jsstring \<Rightarrow> category" where
  "categorizeNotification text_in = categorizeLoop categories text_in"

definition calculatePriority :: "notice \<Rightarrow> int" where
  "calculatePriority notification =
     (let score = 0;
          score = (if isUrgent notification then score + 2 else score);
          score = (if isNew notification then score + 1 else score);
          score = (if category notification = DEADLINE then score + 1 else score);
          score = (if str_includes (toLowerCase (text_str notification)) (lit ''important'')
                   then score + 1 else score)
      in min 5 score)"

section \<open>Fingerprinting\<close>

text \<open>
  \<open>Buffer.from(string)\<close> encodes the string in UTF-8: a surrogate pair becomes the four
  bytes of its code point, a surrogate on its own becomes the three bytes of U+FFFD.
\<close>

definition isHighSurrogate :: "16 word \<Rightarrow> bool" where
  "isHighSurrogate c \<longleftrightarrow> 0xD800 \<le> c \<and> c \<le> 0xDBFF"

definition isLowSurrogate :: "16 word \<Rightarrow> bool" where
  "isLowSurrogate c \<longleftrightarrow> 0xDC00 \<le> c \<and> c \<le> 0xDFFF"

definition codePoint :: "16 word \<Rightarrow> 16 word \<Rightarrow> 32 word" where
  "codePoint hi lo = 0x10000 + push_bit 10 (ucast hi - 0xD800) + (ucast lo - 0xDC00)"

definition utf8Bytes :: "32 word \<Rightarrow> 8 word list" where
  "utf8Bytes cp =
     (if cp < 0x80 then [ucast cp]
      else if cp < 0x800 then
        [0xC0 OR ucast (drop_bit 6 cp), 0x80 OR ucast (cp AND 0x3F)]
      else if cp < 0x10000 then
        [0xE0 OR ucast (drop_bit 12 cp), 0x80 OR ucast (drop_bit 6 cp AND 0x3F),
         0x80 OR ucast (cp AND 0x3F)]
      else
        [0xF0 OR ucast (drop_bit 18 cp), 0x80 OR ucast (drop_bit 12 cp AND 0x3F),
         0x80 OR ucast (drop_bit 6 cp AND 0x3F), 0x80 OR ucast (cp AND 0x3F)])"

fun utf8Encode :: "jsstring \<Rightarrow> 8 word list" where
  "utf8Encode [] = []"
| "utf8Encode [c] =
     (if isHighSurrogate c \<or> isLowSurrogate c then utf8Bytes 0xFFFD else utf8Bytes (ucast c))"
| "utf8Encode (c # d # cs) =
     (if isHighSurrogate c \<and> isLowSurrogate d then utf8Bytes (codePoint c d) @ utf8Encode cs
      else if isHighSurrogate c \<or> isLowSurrogate c then utf8Bytes 0xFFFD @ utf8Encode (d # cs)
      else utf8Bytes (ucast c) @ utf8Encode (d # cs))"

text \<open>
  \<open>buf.toString("base64")\<close>: three bytes give four characters of the alphabet; a rest of
  one or two bytes is padded with \<open>=\<close> (U+003D).
\<close>

definition base64Alphabet :: jsstring where
  "base64Alphabet = lit ''ABCDEFGHIJKLMNOPQRSTUVWXYZabcdefghijklmnopqrstuvwxyz0123456789+/''"

definition base64Char :: "8 word \<Rightarrow> 16 word" where
  "base64Char i = base64Alphabet ! unat (i AND 0x3F)"

fun base64 :: "8 word list \<Rightarrow> jsstring" where
  "base64 [] = []"
| "base64 [a] =
     [base64Char (drop_bit 2 a), base64Char (push_bit 4 (a AND 3)), 0x3D, 0x3D]"
| "base64 [a, b] =
     [base64Char (drop_bit 2 a), base64Char (push_bit 4 (a AND 3) OR drop_bit 4 b),
      base64Char (push_bit 2 (b AND 15)), 0x3D]"
| "base64 (a # b # c # bytes) =
     [base64Char (drop_bit 2 a), base64Char (push_bit 4 (a AND 3) OR drop_bit 4 b),
      base64Char (push_bit 2 (b AND 15) OR drop_bit 6 c), base64Char (c AND 63)]
     @ base64 bytes"

text \<open>
  The template literal joins text, a hyphen and the timestamp; \<open>slice(0, 12)\<close> keeps the
  first twelve code units of the encoding, or all of them when there are fewer.
\<close>

definition generateNotificationId :: "jsstring \<Rightarrow> jsstring \<Rightarrow> jsstring" where
  "generateNotificationId text_in timestamp_in =
     take 12 (base64 (utf8Encode (text_in @ lit ''-'' @ timestamp_in)))"

section \<open>The platform and the outside world\<close>

text \<open>The object handed to the mail service in \<open>sendEmailNotification\<close>.\<close>

record emailData =
  from_addr :: jsstring
  to_addrs :: "jsstring list"
  replyTo :: jsstring
  subject :: jsstring
  html :: jsstring

text \<open>
  One list item of the notice page as the extractor sees it: the trimmed text without its
  images, the absolute address of its link if it has one, whether it carries the "new"
  image, and the two readings of the clock (as ISO strings) that \<open>fetchNotifications\<close>
  takes for it, the first for the id and the second for the timestamp field.
\<close>

record scraped =
  itemText :: jsstring
  itemLink :: "jsstring option"
  itemNew :: bool
  idClock :: jsstring
  stampClock :: jsstring

text \<open>
  What a monitoring cycle takes from outside the repository. Functions of the platform:
  \<open>dateValue s\<close> is the time value in milliseconds of \<open>new Date(s)\<close>, \<open>None\<close> for an
  invalid date; \<open>jsonParse\<close> is \<open>JSON.parse\<close> on a history file, \<open>None\<close> where it throws
  (histories are arrays of notice objects; other JSON values are outside the model);
  \<open>jsonStringify\<close> is \<open>JSON.stringify(_, null, 2)\<close>; \<open>renderHTML\<close> is the markup that
  \<open>generateEmailHTML\<close> produces, which is not modelled further. Circumstances:
  \<open>now\<close> is the reading of \<open>Date.now()\<close> during the comparison with the history (it is
  read anew for each comparison; the model takes all these readings to be equal);
  \<open>page\<close> is the result of request and extraction, \<open>None\<close> when either fails, and
  then \<open>fetchErrorStatus\<close> is the status of the response that the error carries, if it
  carries one; \<open>readFault\<close> gives the error code with which the file system rejects the
  read of a path, if it does; \<open>writeFault\<close> tells how it rejects the write of a path, if
  it does; \<open>mailAccepts\<close> tells whether the mail service accepts a message, and
  \<open>mailErrorHasResponse\<close> whether the error of a rejected message carries a response;
  \<open>emailTo\<close> is the environment variable \<open>EMAIL_TO\<close>.

  \<open>writeFile\<close> opens its target for writing, which creates or empties it, and then
  writes the data. A write rejected on opening leaves the target as it was; a write
  rejected later leaves the target with what had been written until then.
\<close>

datatype write_fault =
  RejectedOnOpen jsstring
| RejectedOnWrite jsstring jsstring

record env =
  dateValue :: "jsstring \<Rightarrow> int option"
  jsonParse :: "jsstring \<Rightarrow> notice list option"
  jsonStringify :: "notice list \<Rightarrow> jsstring"
  renderHTML :: "notice list \<Rightarrow> jsstring"
  now :: int
  page :: "scraped list option"
  fetchErrorStatus :: "int option"
  readFault :: "jsstring \<Rightarrow> jsstring option"
  writeFault :: "jsstring \<Rightarrow> write_fault option"
  mailAccepts :: "emailData \<Rightarrow> bool"
  mailErrorHasResponse :: "emailData \<Rightarrow> bool"
  emailTo :: jsstring

datatype js_error = SystemError jsstring | SyntaxError

datatype fs_call = ReadFile jsstring | WriteFile jsstring jsstring

datatype stderr_line =
  ErrorFetching | FetchStatus int | ErrorLoading js_error | ErrorSaving js_error
| FailedToSend | ApiResponse

text \<open>
  What a cycle can change: the files, the calls made to the file system so far, the
  messages handed to the mail service so far, and the lines written with
  \<open>console.error\<close> (as events; \<open>console.log\<close> output is not modelled).
\<close>

record world =
  files :: "jsstring \<rightharpoonup> jsstring"
  fsCalls :: "fs_call list"
  outbox :: "emailData list"
  stderr :: "stderr_line list"

definition storageFile :: jsstring where
  "storageFile = lit ''previous-notifications.json''"

definition emailFrom :: jsstring where
  "emailFrom = lit ''BAOU Notifications <onboarding@resend.dev>''"

definition emailReplyTo :: jsstring where
  "emailReplyTo = lit ''no-reply@yourdomain.com''"

text \<open>
  \<open>readFile\<close> and \<open>writeFile\<close> of \<open>fs/promises\<close>: the left summand is the error the
  promise is rejected with. A missing file is \<open>ENOENT\<close>. In \<open>RejectedOnWrite code left\<close>,
  \<open>left\<close> is the content that the rejected write leaves in its target.
\<close>

definition readFile :: "env \<Rightarrow> world \<Rightarrow> jsstring \<Rightarrow> (js_error + jsstring) \<times> world" where
  "readFile e w path =
     (let w' = w\<lparr>fsCalls := fsCalls w @ [ReadFile path]\<rparr>
      in case readFault e path of
           Some code \<Rightarrow> (Inl (SystemError code), w')
         | None \<Rightarrow>
             (case files w path of
                None \<Rightarrow> (Inl (SystemError (lit ''ENOENT'')), w')
              | Some data \<Rightarrow> (Inr data, w')))"

definition writeFile ::
    "env \<Rightarrow> world \<Rightarrow> jsstring \<Rightarrow> jsstring \<Rightarrow> (js_error + unit) \<times> world" where
  "writeFile e w path data =
     (let w' = w\<lparr>fsCalls := fsCalls w @ [WriteFile path data]\<rparr>
      in case writeFault e path of
           Some (RejectedOnOpen code) \<Rightarrow> (Inl (SystemError code), w')
         | Some (RejectedOnWrite code left) \<Rightarrow>
             (Inl (SystemError code), w'\<lparr>files := (files w')(path \<mapsto> left)\<rparr>)
         | None \<Rightarrow> (Inr (), w'\<lparr>files := (files w')(path \<mapsto> data)\<rparr>))"

section \<open>Core functions\<close>

text \<open>The object literal built for one list item.\<close>

definition buildNotification :: "scraped \<Rightarrow> notice" where
  "buildNotification item =
     \<lparr>id_str = generateNotificationId (itemText item) (idClock item),
      text_str = itemText item,
      link = itemLink item,
      isNew = itemNew item,
      isUrgent = detectUrgency (itemText item),
      timestamp = stampClock item,
      category = categorizeNotification (itemText item)\<rparr>"

text \<open>
  The \<open>catch\<close> block of \<open>fetchNotifications\<close> writes one line, and a second one with
  the status when the error carries a response.
\<close>

definition fetchNotifications :: "env \<Rightarrow> world \<Rightarrow> notice list option \<times> world" where
  "fetchNotifications e w =
     (case page e of
        Some items \<Rightarrow> (Some (map buildNotification items), w)
      | None \<Rightarrow>
          (case fetchErrorStatus e of
             None \<Rightarrow> (None, w\<lparr>stderr := stderr w @ [ErrorFetching]\<rparr>)
           | Some status \<Rightarrow>
               (None, w\<lparr>stderr := stderr w @ [ErrorFetching, FetchStatus status]\<rparr>)))"

text \<open>The \<open>catch\<close> block of \<open>loadPreviousNotifications\<close>.\<close>

definition loadFailed :: "js_error \<Rightarrow> world \<Rightarrow> notice list \<times> world" where
  "loadFailed err w =
     (if err \<noteq> SystemError (lit ''ENOENT'')
      then ([], w\<lparr>stderr := stderr w @ [ErrorLoading err]\<rparr>)
      else ([], w))"

definition loadPreviousNotifications :: "env \<Rightarrow> world \<Rightarrow> notice list \<times> world" where
  "loadPreviousNotifications e w =
     (case readFile e w storageFile of
        (Inl err, w1) \<Rightarrow> loadFailed err w1
      | (Inr data, w1) \<Rightarrow>
          (case jsonParse e data of
             None \<Rightarrow> loadFailed SyntaxError w1
           | Some notifications \<Rightarrow> (notifications, w1)))"

definition saveNotifications :: "env \<Rightarrow> world \<Rightarrow> notice list \<Rightarrow> world" where
  "saveNotifications e w notifications =
     (let backupFile = storageFile @ lit ''.backup''
      in case writeFile e w backupFile (jsonStringify e notifications) of
           (Inl err, w1) \<Rightarrow> w1\<lparr>stderr := stderr w1 @ [ErrorSaving err]\<rparr>
         | (Inr _, w1) \<Rightarrow>
             (case writeFile e w1 storageFile (jsonStringify e notifications) of
                (Inl err, w2) \<Rightarrow> w2\<lparr>stderr := stderr w2 @ [ErrorSaving err]\<rparr>
              | (Inr _, w2) \<Rightarrow> w2))"

text \<open>The decimal numeral that a template literal prints for an array length.\<close>

fun numberToString :: "nat \<Rightarrow> jsstring" where
  "numberToString n =
     (if n < 10 then [0x30 + of_nat n]
      else numberToString (n div 10) @ [0x30 + of_nat (n mod 10)])"

declare numberToString.simps [simp del]

definition emailSubject :: "notice list \<Rightarrow> jsstring" where
  "emailSubject newNotifications =
     lit ''BAOU: '' @ numberToString (length newNotifications) @ lit '' New Notification''
     @ (if length newNotifications \<noteq> 1 then lit ''s'' else [])
     @ (if list_ex (\<lambda>n. isUrgent n) newNotifications then lit '' (URGENT)'' else [])"

definition buildEmailData :: "env \<Rightarrow> notice list \<Rightarrow> emailData" where
  "buildEmailData e newNotifications =
     \<lparr>from_addr = emailFrom,
      to_addrs = [emailTo e],
      replyTo = emailReplyTo,
      subject = emailSubject newNotifications,
      html = renderHTML e newNotifications\<rparr>"

definition sendEmailNotification :: "env \<Rightarrow> world \<Rightarrow> notice list \<Rightarrow> bool \<times> world" where
  "sendEmailNotification e w newNotifications =
     (let emailData = buildEmailData e newNotifications;
          w' = w\<lparr>outbox := outbox w @ [emailData]\<rparr>
      in if mailAccepts e emailData then (True, w')
         else if mailErrorHasResponse e emailData
           then (False, w'\<lparr>stderr := stderr w' @ [FailedToSend, ApiResponse]\<rparr>)
           else (False, w'\<lparr>stderr := stderr w' @ [FailedToSend]\<rparr>))"

text \<open>
  The comparison of two \<open>Date\<close> objects with \<open>>\<close> compares their time values and is
  false when one of them is invalid.
\<close>

definition withinLastDay :: "env \<Rightarrow> notice \<Rightarrow> bool" where
  "withinLastDay e prev =
     (case dateValue e (timestamp prev) of
        None \<Rightarrow> False
      | Some t \<Rightarrow> t > now e - 24 * 60 * 60 * 1000)"

text \<open>The \<open>filter\<close> of \<open>monitorNotifications\<close>, whose result the source calls \<open>newNotifications\<close>.\<close>

definition newNotifications :: "env \<Rightarrow> notice list \<Rightarrow> notice list \<Rightarrow> notice list" where
  "newNotifications e currentNotifications previousNotifications =
     filter (\<lambda>current.
        \<not> list_ex (\<lambda>prev.
             id_str prev = id_str current
             \<or> (text_str prev = text_str current \<and> withinLastDay e prev))
           previousNotifications)
       currentNotifications"

definition monitorNotifications :: "env \<Rightarrow> world \<Rightarrow> world" where
  "monitorNotifications e w =
     (case loadPreviousNotifications e w of (previousNotifications, w1) \<Rightarrow>
      case fetchNotifications e w1 of
        (None, w2) \<Rightarrow> w2
      | (Some currentNotifications, w2) \<Rightarrow>
          (let new = newNotifications e currentNotifications previousNotifications
           in if length new > 0
              then (case sendEmailNotification e w2 new of
                      (emailSent, w3) \<Rightarrow>
                        if emailSent
                        then saveNotifications e w3 (new @ previousNotifications)
                        else w3)
              else w2))"

section \<open>Notions used in the statements\<close>

text \<open>
  The wording of the specification for the two keyword scans: some keyword of the list
  occurs in the text at some position, both compared in lower case.
\<close>

definition keywordOccurs :: "jsstring \<Rightarrow> jsstring list \<Rightarrow> bool" where
  "keywordOccurs t ks \<longleftrightarrow>
     (\<exists>k \<in> set ks. \<exists>a b. toLowerCase t = a @ toLowerCase k @ b)"

text \<open>
  The list that a cycle computes as \<open>newNotifications\<close>, as a function of what the cycle
  finds; a cycle whose fetch fails returns before the comparison and computes none. The
  path of the backup copy, which \<open>saveNotifications\<close> builds from the storage path.
\<close>

definition cycleNew :: "env \<Rightarrow> world \<Rightarrow> notice list" where
  "cycleNew e w =
     (case page e of
        None \<Rightarrow> []
      | Some items \<Rightarrow>
          newNotifications e (map buildNotification items)
            (fst (loadPreviousNotifications e w)))"

definition backupPath :: jsstring where
  "backupPath = storageFile @ lit ''.backup''"

section \<open>Sample values\<close>

definition sampleNotice :: notice where
  "sampleNotice =
     \<lparr>id_str = lit ''RmluYWwgZXhh'', text_str = lit ''Final exam schedule announced'',
      link = None, isNew = False, isUrgent = False,
      timestamp = lit ''2024-01-01T00:00:00.000Z'', category = EXAM\<rparr>"

definition importantItem :: scraped where
  "importantItem =
     \<lparr>itemText = lit ''Important circular'', itemLink = None, itemNew = False,
      idClock = lit ''2024-01-01T00:00:00.000Z'',
      stampClock = lit ''2024-01-01T00:00:00.001Z''\<rparr>"

text \<open>
  Time values of the four instants used in the examples, as \<open>new Date(s).getTime()\<close>
  gives them; every other string is treated as an invalid date.
\<close>

definition sampleDateValue :: "jsstring \<Rightarrow> int option" where
  "sampleDateValue s =
     (if s = lit ''2024-01-01T00:00:00.000Z'' then Some 1704067200000
      else if s = lit ''2024-01-02T01:00:00.000Z'' then Some 1704157200000
      else if s = lit ''2024-12-31T00:00:00.000Z'' then Some 1735603200000
      else if s = lit ''2025-01-01T01:00:00.000Z'' then Some 1735693200000
      else None)"

text \<open>
  Stand-ins for the JSON functions in the examples: every list of notices is written as
  the concatenation of its ids in brackets, and two history files parse, the empty array
  and the array of the one notice "Exam" scraped at midnight of 1 January 2024.
\<close>

definition scrapedAt :: "jsstring \<Rightarrow> jsstring \<Rightarrow> scraped" where
  "scrapedAt t clock =
     \<lparr>itemText = t, itemLink = None, itemNew = False, idClock = clock, stampClock = clock\<rparr>"

definition historyNotice :: notice where
  "historyNotice = buildNotification (scrapedAt (lit ''Exam'') (lit ''2024-01-01T00:00:00.000Z''))"

definition sampleParse :: "jsstring \<Rightarrow> notice list option" where
  "sampleParse data =
     (if data = lit ''[]'' then Some []
      else if data = lit ''[RXhhbS0yMDI0]'' then Some [historyNotice]
      else None)"

definition sampleStringify :: "notice list \<Rightarrow> jsstring" where
  "sampleStringify ns = lit ''['' @ concat (map id_str ns) @ lit '']''"

text \<open>
  An environment in which nothing fails: the page shows "Final exam schedule announced"
  at 01:00 on 2 January 2024.
\<close>

definition sampleEnv :: env where
  "sampleEnv =
     \<lparr>dateValue = sampleDateValue, jsonParse = sampleParse, jsonStringify = sampleStringify,
      renderHTML = (\<lambda>ns. lit ''<html>''), now = 1704157200000,
      page = Some [scrapedAt (lit ''Final exam schedule announced'')
                     (lit ''2024-01-02T01:00:00.000Z'')],
      fetchErrorStatus = None,
      readFault = (\<lambda>path. None), writeFault = (\<lambda>path. None),
      mailAccepts = (\<lambda>mail. True), mailErrorHasResponse = (\<lambda>mail. False),
      emailTo = lit ''student@example.org''\<rparr>"

definition sampleWorld :: world where
  "sampleWorld =
     \<lparr>files = [storageFile \<mapsto> lit ''[]''], fsCalls = [], outbox = [], stderr = []\<rparr>"

text \<open>
  Variants of the sample environment: the backup copy cannot be opened for writing; the
  disk fills up while the history file is written and the file is left empty; the mail
  service rejects every message. A world whose history file is cut off after two
  characters, and a world whose history file holds the notice "Exam".
\<close>

definition backupFaultEnv :: env where
  "backupFaultEnv =
     sampleEnv\<lparr>writeFault :=
       (\<lambda>path. if path = storageFile @ lit ''.backup''
               then Some (RejectedOnOpen (lit ''EACCES'')) else None)\<rparr>"

definition diskFullEnv :: env where
  "diskFullEnv =
     sampleEnv\<lparr>writeFault :=
       (\<lambda>path. if path = storageFile
               then Some (RejectedOnWrite (lit ''ENOSPC'') []) else None)\<rparr>"

definition mailDownEnv :: env where
  "mailDownEnv = sampleEnv\<lparr>mailAccepts := (\<lambda>mail. False)\<rparr>"

definition corruptWorld :: world where
  "corruptWorld = sampleWorld\<lparr>files := [storageFile \<mapsto> lit ''[{'']\<rparr>"

definition historyWorld :: world where
  "historyWorld = sampleWorld\<lparr>files := [storageFile \<mapsto> lit ''[RXhhbS0yMDI0]'']\<rparr>"

section \<open>Facts about strings\<close>

lemma str_includes_iff: "str_includes s k \<longleftrightarrow> (\<exists>a b. s = a @ k @ b)"
proof (induction s)
  case Nil
  then show ?case by auto
next
  case (Cons c cs)
  show ?case
  proof
    assume "str_includes (c # cs) k"
    then consider "prefix k (c # cs)" | "str_includes cs k" by auto
    then show "\<exists>a b. c # cs = a @ k @ b"
    proof cases
      case 1
      then obtain b where "c # cs = k @ b" by (auto simp: prefix_def)
      then have "c # cs = [] @ k @ b" by simp
      then show ?thesis by blast
    next
      case 2
      with Cons.IH obtain a b where "cs = a @ k @ b" by blast
      then have "c # cs = (c # a) @ k @ b" by simp
      then show ?thesis by blast
    qed
  next
    assume "\<exists>a b. c # cs = a @ k @ b"
    then obtain a b where ab: "c # cs = a @ k @ b" by blast
    show "str_includes (c # cs) k"
    proof (cases a)
      case Nil
      with ab have "prefix k (c # cs)" by (simp add: prefix_def)
      then show ?thesis by simp
    next
      case (Cons x a')
      with ab have "cs = a' @ k @ b" by simp
      with Cons.IH have "str_includes cs k" by blast
      then show ?thesis by simp
    qed
  qed
qed

lemma toLowerCase_append: "toLowerCase (a @ b) = toLowerCase a @ toLowerCase b"
  by (simp add: toLowerCase_def)

lemma toLowerCase_important: "toLowerCase (lit ''important'') = lit ''important''"
  by (simp add: toLowerCase_def lit_def lowerUnit_def)

lemma important_urgentKeyword: "lit ''important'' \<in> set urgentKeywords"
  by (simp add: urgentKeywords_def)

lemma list_ex_includes_iff:
  "list_ex (\<lambda>keyword. str_includes s (toLowerCase keyword)) ks \<longleftrightarrow>
     (\<exists>k \<in> set ks. \<exists>a b. s = a @ toLowerCase k @ b)"
  by (simp add: list_ex_iff str_includes_iff)

section \<open>Urgency\<close>

text \<open>
  C5: \<open>detectUrgency\<close> answers true exactly when the lower-cased text contains the
  lower-cased form of one of the fourteen keywords (twelve English, two Gujarati) at some
  position. Nothing is asked of what stands before or after the occurrence: a keyword
  embedded between arbitrary strings \<open>pre\<close> and \<open>post\<close> is a match.
\<close>

theorem detectUrgency_substring:
  "(detectUrgency t \<longleftrightarrow>
      (\<exists>k \<in> set urgentKeywords. \<exists>a b. toLowerCase t = a @ toLowerCase k @ b))
   \<and> (\<forall>k \<in> set urgentKeywords. \<forall>pre post. detectUrgency (pre @ k @ post))
   \<and> length urgentKeywords = 14"
proof (intro conjI)
  show iff: "detectUrgency t \<longleftrightarrow>
      (\<exists>k \<in> set urgentKeywords. \<exists>a b. toLowerCase t = a @ toLowerCase k @ b)" for t
    unfolding detectUrgency_def by (rule list_ex_includes_iff)
  show "\<forall>k \<in> set urgentKeywords. \<forall>pre post. detectUrgency (pre @ k @ post)"
  proof (intro ballI allI)
    fix k pre post
    assume k: "k \<in> set urgentKeywords"
    have "toLowerCase (pre @ k @ post) = toLowerCase pre @ toLowerCase k @ toLowerCase post"
      by (simp add: toLowerCase_append)
    with k show "detectUrgency (pre @ k @ post)"
      unfolding iff by blast
  qed
  show "length urgentKeywords = 14"
    by (simp add: urgentKeywords_def)
qed

theorem detectUrgency_substring_witness:
  "detectUrgency (lit ''Overdue fees'') \<and> lit ''due'' \<in> set urgentKeywords
   \<and> \<not> detectUrgency (lit ''Fees'')
   \<and> detectUrgency (lit ''OVERDUE FEES'')"
proof -
  have k: "lit ''due'' \<in> set urgentKeywords"
    by (simp add: urgentKeywords_def)
  have "detectUrgency (lit ''Over'' @ lit ''due'' @ lit '' fees'')"
    using detectUrgency_substring [of "[]"] k by blast
  moreover have "lit ''Over'' @ lit ''due'' @ lit '' fees'' = lit ''Overdue fees''"
    by (simp add: lit_def)
  moreover have "\<not> detectUrgency (lit ''Fees'')"
    by code_simp
  moreover have "toLowerCase (lit ''OVERDUE FEES'')
      = lit ''over'' @ toLowerCase (lit ''due'') @ lit '' fees''"
    by (simp add: toLowerCase_def lowerUnit_def lit_def)
  then have "detectUrgency (lit ''OVERDUE FEES'')"
    using detectUrgency_substring [of "lit ''OVERDUE FEES''"] k by blast
  ultimately show ?thesis using k by simp
qed

lemma keywordOccurs_code:
  "keywordOccurs t ks =
     list_ex (\<lambda>keyword. str_includes (toLowerCase t) (toLowerCase keyword)) ks"
  by (simp add: keywordOccurs_def list_ex_includes_iff)

section \<open>Category\<close>

text \<open>
  C4: \<open>categorizeNotification\<close> returns the first of EXAM, ASSIGNMENT, SCHEDULE,
  ANNOUNCEMENT, DEADLINE one of whose keywords occurs in the text (compared in lower
  case, at any position), and OTHER when none does. The text "Final exam schedule
  announced" contains a SCHEDULE keyword and is classified EXAM all the same. Lower case
  is that of \<open>toLowerCase\<close>: "HOMEWOR" followed by the Kelvin sign is an ASSIGNMENT.
\<close>

theorem categorizeNotification_first_match:
  "categorizeNotification t =
     (if keywordOccurs t examKeywords then EXAM
      else if keywordOccurs t assignmentKeywords then ASSIGNMENT
      else if keywordOccurs t scheduleKeywords then SCHEDULE
      else if keywordOccurs t announcementKeywords then ANNOUNCEMENT
      else if keywordOccurs t deadlineKeywords then DEADLINE
      else OTHER)
   \<and> keywordOccurs (lit ''Final exam schedule announced'') scheduleKeywords
   \<and> categorizeNotification (lit ''Final exam schedule announced'') = EXAM"
proof (intro conjI)
  show "categorizeNotification t =
     (if keywordOccurs t examKeywords then EXAM
      else if keywordOccurs t assignmentKeywords then ASSIGNMENT
      else if keywordOccurs t scheduleKeywords then SCHEDULE
      else if keywordOccurs t announcementKeywords then ANNOUNCEMENT
      else if keywordOccurs t deadlineKeywords then DEADLINE
      else OTHER)"
    by (simp add: categorizeNotification_def categories_def keywordOccurs_code)
  show "keywordOccurs (lit ''Final exam schedule announced'') scheduleKeywords"
    unfolding keywordOccurs_code by code_simp
  show "categorizeNotification (lit ''Final exam schedule announced'') = EXAM"
    by code_simp
qed

theorem categorizeNotification_first_match_witness:
  "categorizeNotification (lit ''Last date for homework'') = ASSIGNMENT
   \<and> keywordOccurs (lit ''Last date for homework'') deadlineKeywords
   \<and> categorizeNotification (lit ''Welcome'') = OTHER
   \<and> categorizeNotification (lit ''HOMEWOR'' @ [0x212A]) = ASSIGNMENT"
proof -
  have 5: "\<not> keywordOccurs (lit ''HOMEWOR'' @ [0x212A]) examKeywords"
    unfolding keywordOccurs_code by code_simp
  have 6: "keywordOccurs (lit ''HOMEWOR'' @ [0x212A]) assignmentKeywords"
    unfolding keywordOccurs_code by code_simp
  have 1: "\<not> keywordOccurs (lit ''Last date for homework'') examKeywords"
    unfolding keywordOccurs_code by code_simp
  have 2: "keywordOccurs (lit ''Last date for homework'') assignmentKeywords"
    unfolding keywordOccurs_code by code_simp
  have 3: "keywordOccurs (lit ''Last date for homework'') deadlineKeywords"
    unfolding keywordOccurs_code by code_simp
  have 4: "\<not> keywordOccurs (lit ''Welcome'') examKeywords"
    "\<not> keywordOccurs (lit ''Welcome'') assignmentKeywords"
    "\<not> keywordOccurs (lit ''Welcome'') scheduleKeywords"
    "\<not> keywordOccurs (lit ''Welcome'') announcementKeywords"
    "\<not> keywordOccurs (lit ''Welcome'') deadlineKeywords"
    unfolding keywordOccurs_code by code_simp+
  show ?thesis
    using categorizeNotification_first_match [of "lit ''Last date for homework''"]
      categorizeNotification_first_match [of "lit ''Welcome''"]
      categorizeNotification_first_match [of "lit ''HOMEWOR'' @ [0x212A]"] 1 2 3 4 5 6
    by simp
qed

section \<open>Priority\<close>

text \<open>
  C3: the priority is the minimum of 5 and the sum of 2 for an urgent notice, 1 for a
  notice marked new on the page, 1 for the category DEADLINE and 1 for a text that
  contains "important" in lower case. It lies between 0 and 5, and a notice that has
  every contributing condition another notice has scores at least as much.
\<close>

theorem calculatePriority_score:
  "calculatePriority n =
     min 5 ((if isUrgent n then 2 else 0) + (if isNew n then 1 else 0)
            + (if category n = DEADLINE then 1 else 0)
            + (if \<exists>a b. toLowerCase (text_str n) = a @ lit ''important'' @ b then 1 else 0))
   \<and> 0 \<le> calculatePriority n \<and> calculatePriority n \<le> 5
   \<and> ((isUrgent n \<longrightarrow> isUrgent n') \<and> (isNew n \<longrightarrow> isNew n')
        \<and> (category n = DEADLINE \<longrightarrow> category n' = DEADLINE)
        \<and> ((\<exists>a b. toLowerCase (text_str n) = a @ lit ''important'' @ b)
              \<longrightarrow> (\<exists>a b. toLowerCase (text_str n') = a @ lit ''important'' @ b))
      \<longrightarrow> calculatePriority n \<le> calculatePriority n')"
  by (simp add: calculatePriority_def Let_def str_includes_iff)

theorem calculatePriority_score_witness:
  "calculatePriority sampleNotice = 0
   \<and> calculatePriority (sampleNotice\<lparr>isUrgent := True\<rparr>) = 2
   \<and> calculatePriority sampleNotice \<le> calculatePriority (sampleNotice\<lparr>isUrgent := True\<rparr>)
   \<and> calculatePriority
        (sampleNotice\<lparr>isUrgent := True, isNew := True, category := DEADLINE,
           text_str := lit ''IMPORTANT: deadline''\<rparr>) = 5"
proof -
  have a: "\<not> str_includes (toLowerCase (text_str sampleNotice)) (lit ''important'')"
    by code_simp
  have b: "str_includes (toLowerCase (lit ''IMPORTANT: deadline'')) (lit ''important'')"
    by code_simp
  show ?thesis
    using calculatePriority_score [of sampleNotice "sampleNotice\<lparr>isUrgent := True\<rparr>"]
      calculatePriority_score [of "sampleNotice\<lparr>isUrgent := True\<rparr>" sampleNotice]
      calculatePriority_score [of "sampleNotice\<lparr>isUrgent := True, isNew := True,
         category := DEADLINE, text_str := lit ''IMPORTANT: deadline''\<rparr>" sampleNotice]
      a b
    by (simp add: str_includes_iff [symmetric] sampleNotice_def)
qed

text \<open>
  C10: a text that contains "important" in lower case is urgent for \<open>detectUrgency\<close>,
  because "important" is one of the urgency keywords. A notice whose \<open>isUrgent\<close> field
  is the verdict of \<open>detectUrgency\<close> on its own text therefore never gets the point for
  "important" without the two points for urgency, and its priority is at least 3.
\<close>

theorem important_implies_urgent:
  "str_includes (toLowerCase (text_str n)) (lit ''important'') \<longrightarrow>
     detectUrgency (text_str n)
     \<and> (isUrgent n = detectUrgency (text_str n) \<longrightarrow> 3 \<le> calculatePriority n)"
proof
  assume imp: "str_includes (toLowerCase (text_str n)) (lit ''important'')"
  then have "str_includes (toLowerCase (text_str n)) (toLowerCase (lit ''important''))"
    by (simp only: toLowerCase_important)
  with important_urgentKeyword have u: "detectUrgency (text_str n)"
    unfolding detectUrgency_def list_ex_iff by blast
  have "isUrgent n \<Longrightarrow> 3 \<le> calculatePriority n"
    using imp by (simp add: calculatePriority_def Let_def)
  with u show "detectUrgency (text_str n)
     \<and> (isUrgent n = detectUrgency (text_str n) \<longrightarrow> 3 \<le> calculatePriority n)"
    by simp
qed

theorem important_implies_urgent_witness:
  "str_includes (toLowerCase (text_str (buildNotification importantItem))) (lit ''important'')
   \<and> detectUrgency (text_str (buildNotification importantItem))
   \<and> isUrgent (buildNotification importantItem)
   \<and> calculatePriority (buildNotification importantItem) = 3"
proof -
  have t: "text_str (buildNotification importantItem) = lit ''Important circular''"
    by (simp add: buildNotification_def importantItem_def)
  have h: "str_includes (toLowerCase (text_str (buildNotification importantItem)))
             (lit ''important'')"
    unfolding t by code_simp
  have u: "isUrgent (buildNotification importantItem)
             = detectUrgency (text_str (buildNotification importantItem))"
    by (simp add: buildNotification_def)
  have le: "3 \<le> calculatePriority (buildNotification importantItem)"
    and d: "detectUrgency (text_str (buildNotification importantItem))"
    using important_implies_urgent [of "buildNotification importantItem"] h u by simp_all
  have "categorizeNotification (lit ''Important circular'') = ANNOUNCEMENT"
    by code_simp
  then have c: "category (buildNotification importantItem) = ANNOUNCEMENT"
    by (simp add: buildNotification_def importantItem_def)
  have "calculatePriority (buildNotification importantItem) \<le> 3"
    using c by (simp add: calculatePriority_def Let_def buildNotification_def importantItem_def)
  with le h d u show ?thesis by simp
qed

section \<open>Fingerprint\<close>

lemma utf8Encode_append:
  "b = [] \<or> \<not> isLowSurrogate (hd b) \<Longrightarrow> utf8Encode (a @ b) = utf8Encode a @ utf8Encode b"
proof (induction a rule: utf8Encode.induct)
  case 1
  then show ?case by simp
next
  case (2 c)
  then show ?case by (cases b) auto
next
  case (3 c d cs)
  then show ?case by simp
qed

lemma base64_first_nine:
  assumes "9 \<le> length x"
  shows "take 12 (base64 (x @ y)) = base64 (take 9 x)"
proof -
  from assms obtain a1 r1 where 1: "x = a1 # r1" "8 \<le> length r1" by (cases x) auto
  then obtain a2 r2 where 2: "r1 = a2 # r2" "7 \<le> length r2" by (cases r1) auto
  then obtain a3 r3 where 3: "r2 = a3 # r3" "6 \<le> length r3" by (cases r2) auto
  then obtain a4 r4 where 4: "r3 = a4 # r4" "5 \<le> length r4" by (cases r3) auto
  then obtain a5 r5 where 5: "r4 = a5 # r5" "4 \<le> length r5" by (cases r4) auto
  then obtain a6 r6 where 6: "r5 = a6 # r6" "3 \<le> length r6" by (cases r5) auto
  then obtain a7 r7 where 7: "r6 = a7 # r7" "2 \<le> length r7" by (cases r6) auto
  then obtain a8 r8 where 8: "r7 = a8 # r8" "1 \<le> length r8" by (cases r7) auto
  then obtain a9 r9 where 9: "r8 = a9 # r9" by (cases r8) auto
  have x: "x = a1 # a2 # a3 # a4 # a5 # a6 # a7 # a8 # a9 # r9"
    using 1 2 3 4 5 6 7 8 9 by simp
  show ?thesis unfolding x by simp
qed


lemma generateNotificationId_long_text:
  assumes "9 \<le> length (utf8Encode t)"
  shows "generateNotificationId t ts = base64 (take 9 (utf8Encode t))"
proof -
  have "\<not> isLowSurrogate (hd (lit ''-'' @ ts))"
    by (simp add: lit_def isLowSurrogate_def)
  then have "utf8Encode (t @ lit ''-'' @ ts) = utf8Encode t @ utf8Encode (lit ''-'' @ ts)"
    by (simp add: utf8Encode_append)
  with assms show ?thesis
    by (simp add: generateNotificationId_def base64_first_nine)
qed

lemma generateNotificationId_ignores_timestamp:
  "9 \<le> length (utf8Encode t) \<Longrightarrow> generateNotificationId t ts = generateNotificationId t ts'"
  by (simp add: generateNotificationId_long_text)

lemma utf8Encode_sample:
  "utf8Encode (lit ''Final exam schedule announced'') =
     [0x46, 0x69, 0x6E, 0x61, 0x6C, 0x20, 0x65, 0x78, 0x61, 0x6D, 0x20, 0x73, 0x63, 0x68,
      0x65, 0x64, 0x75, 0x6C, 0x65, 0x20, 0x61, 0x6E, 0x6E, 0x6F, 0x75, 0x6E, 0x63, 0x65, 0x64]"
  by (simp add: lit_def utf8Bytes_def isHighSurrogate_def isLowSurrogate_def)

lemma generateNotificationId_sample:
  "generateNotificationId (lit ''Final exam schedule announced'') ts = lit ''RmluYWwgZXhh''"
proof -
  have "9 \<le> length (utf8Encode (lit ''Final exam schedule announced''))"
    by (simp add: utf8Encode_sample)
  then have "generateNotificationId (lit ''Final exam schedule announced'') ts
      = base64 (take 9 (utf8Encode (lit ''Final exam schedule announced'')))"
    by (rule generateNotificationId_long_text)
  also have "\<dots> = lit ''RmluYWwgZXhh''"
    unfolding utf8Encode_sample by (simp add: base64Char_def base64Alphabet_def lit_def)
  finally show ?thesis .
qed

text \<open>
  C1: the id of a notice does not change with the timestamp once the text has nine bytes
  or more in UTF-8: the first twelve characters of the encoding cover the first nine
  bytes only. The text "Final exam schedule announced" gets the id "RmluYWwgZXhh" at
  midnight of 1 January 2024 and again twenty-five hours later.
\<close>

theorem generateNotificationId_timestamps_collide:
  "generateNotificationId (lit ''Final exam schedule announced'')
      (lit ''2024-01-01T00:00:00.000Z'') = lit ''RmluYWwgZXhh''
   \<and> generateNotificationId (lit ''Final exam schedule announced'')
      (lit ''2024-01-02T01:00:00.000Z'') = lit ''RmluYWwgZXhh''
   \<and> lit ''2024-01-01T00:00:00.000Z'' \<noteq> lit ''2024-01-02T01:00:00.000Z''"
  by (simp add: generateNotificationId_sample) (simp add: lit_def)

section \<open>Diff against the history\<close>

lemma withinLastDay_iff:
  "withinLastDay e prev \<longleftrightarrow>
     (\<exists>t. dateValue e (timestamp prev) = Some t \<and> now e - 24 * 60 * 60 * 1000 < t)"
  by (simp add: withinLastDay_def split: option.splits)

lemma newNotifications_filter:
  "newNotifications e current history =
     filter (\<lambda>c. (\<forall>p \<in> set history. id_str p \<noteq> id_str c)
                \<and> (\<forall>p \<in> set history. \<not> (text_str p = text_str c \<and> withinLastDay e p)))
       current"
  unfolding newNotifications_def list_ex_iff
  by (rule filter_cong) auto

lemma newNotifications_Nil: "newNotifications e current [] = current"
  by (simp add: newNotifications_def)

lemma buildNotification_sample_id:
  "id_str (buildNotification (scrapedAt (lit ''Final exam schedule announced'') clock))
     = lit ''RmluYWwgZXhh''"
  by (simp add: buildNotification_def scrapedAt_def generateNotificationId_sample)

text \<open>
  C2, as amended: the diff keeps, in the order of the current batch, exactly the current
  notices for which no history entry has the same id and no history entry has the same
  text with a valid timestamp later than \<open>now\<close> minus 24 hours. With an empty history
  it keeps every current notice. A current notice whose text occurs in the history only
  with timestamps 25 hours old is kept provided no history entry has its id.
\<close>

theorem newNotifications_characterisation:
  "newNotifications e current history =
     filter (\<lambda>c. (\<forall>p \<in> set history. id_str p \<noteq> id_str c)
                \<and> (\<forall>p \<in> set history.
                      \<not> (text_str p = text_str c
                         \<and> (\<exists>t. dateValue e (timestamp p) = Some t
                                \<and> now e - 24 * 60 * 60 * 1000 < t))))
       current
   \<and> subseq (newNotifications e current history) current
   \<and> newNotifications e current [] = current
   \<and> (c \<in> set current \<and> (\<forall>p \<in> set history. id_str p \<noteq> id_str c)
        \<and> (\<forall>p \<in> set history. text_str p = text_str c \<longrightarrow>
              dateValue e (timestamp p) = Some (now e - 25 * 60 * 60 * 1000))
      \<longrightarrow> c \<in> set (newNotifications e current history))"
proof (intro conjI impI)
  show "newNotifications e current history =
     filter (\<lambda>c. (\<forall>p \<in> set history. id_str p \<noteq> id_str c)
                \<and> (\<forall>p \<in> set history.
                      \<not> (text_str p = text_str c
                         \<and> (\<exists>t. dateValue e (timestamp p) = Some t
                                \<and> now e - 24 * 60 * 60 * 1000 < t))))
       current"
    by (simp only: newNotifications_filter withinLastDay_iff)
  show "subseq (newNotifications e current history) current"
    by (simp add: newNotifications_def)
  show "newNotifications e current [] = current"
    by (rule newNotifications_Nil)
next
  assume h: "c \<in> set current \<and> (\<forall>p \<in> set history. id_str p \<noteq> id_str c)
        \<and> (\<forall>p \<in> set history. text_str p = text_str c \<longrightarrow>
              dateValue e (timestamp p) = Some (now e - 25 * 60 * 60 * 1000))"
  have "\<not> (text_str p = text_str c \<and> withinLastDay e p)" if "p \<in> set history" for p
  proof
    assume a: "text_str p = text_str c \<and> withinLastDay e p"
    with h that have "dateValue e (timestamp p) = Some (now e - 25 * 60 * 60 * 1000)"
      by blast
    with a show False by (simp add: withinLastDay_def)
  qed
  with h show "c \<in> set (newNotifications e current history)"
    by (simp add: newNotifications_filter)
qed

theorem newNotifications_characterisation_witness:
  "newNotifications (sampleEnv\<lparr>now := 1735693200000\<rparr>)
     [buildNotification (scrapedAt (lit ''Exam'') (lit ''2025-01-01T01:00:00.000Z''))]
     [buildNotification (scrapedAt (lit ''Exam'') (lit ''2024-12-31T00:00:00.000Z''))]
   = [buildNotification (scrapedAt (lit ''Exam'') (lit ''2025-01-01T01:00:00.000Z''))]"
proof -
  let ?e = "sampleEnv\<lparr>now := 1735693200000\<rparr>"
  let ?c = "buildNotification (scrapedAt (lit ''Exam'') (lit ''2025-01-01T01:00:00.000Z''))"
  let ?p = "buildNotification (scrapedAt (lit ''Exam'') (lit ''2024-12-31T00:00:00.000Z''))"
  have idc: "id_str ?c = lit ''RXhhbS0yMDI1''"
    by (simp add: buildNotification_def scrapedAt_def generateNotificationId_def lit_def
        utf8Bytes_def isHighSurrogate_def isLowSurrogate_def base64Char_def base64Alphabet_def)
  have idp: "id_str ?p = lit ''RXhhbS0yMDI0''"
    by (simp add: buildNotification_def scrapedAt_def generateNotificationId_def lit_def
        utf8Bytes_def isHighSurrogate_def isLowSurrogate_def base64Char_def base64Alphabet_def)
  have ids: "\<forall>p \<in> set [?p]. id_str p \<noteq> id_str ?c"
    by (simp add: idc idp) (simp add: lit_def)
  have old: "\<forall>p \<in> set [?p]. text_str p = text_str ?c \<longrightarrow>
      dateValue ?e (timestamp p) = Some (now ?e - 25 * 60 * 60 * 1000)"
    by (simp add: buildNotification_def scrapedAt_def sampleEnv_def sampleDateValue_def)
       (simp add: lit_def)
  have "?c \<in> set (newNotifications ?e [?c] [?p])"
    using newNotifications_characterisation [of ?e "[?c]" "[?p]" ?c] ids old by simp
  moreover obtain P where "newNotifications ?e [?c] [?p] = filter P [?c]"
    using newNotifications_characterisation [of ?e "[?c]" "[?p]" ?c] by blast
  ultimately show ?thesis
    by (cases "P ?c") simp_all
qed

text \<open>
  The claim of C2 as stated fails: the notice scraped at 01:00 on 2 January 2024 has the
  text of the history entry scraped 25 hours before, whose timestamp is outside the
  window, and is not output, because both have the id "RmluYWwgZXhh".
\<close>

theorem newNotifications_old_text_suppressed:
  "text_str (buildNotification (scrapedAt (lit ''Final exam schedule announced'')
        (lit ''2024-01-02T01:00:00.000Z'')))
     = text_str (buildNotification (scrapedAt (lit ''Final exam schedule announced'')
        (lit ''2024-01-01T00:00:00.000Z'')))
   \<and> dateValue sampleEnv
        (timestamp (buildNotification (scrapedAt (lit ''Final exam schedule announced'')
           (lit ''2024-01-01T00:00:00.000Z''))))
     = Some (now sampleEnv - 25 * 60 * 60 * 1000)
   \<and> newNotifications sampleEnv
        [buildNotification (scrapedAt (lit ''Final exam schedule announced'')
           (lit ''2024-01-02T01:00:00.000Z''))]
        [buildNotification (scrapedAt (lit ''Final exam schedule announced'')
           (lit ''2024-01-01T00:00:00.000Z''))]
     = []"
proof (intro conjI)
  show "text_str (buildNotification (scrapedAt (lit ''Final exam schedule announced'')
        (lit ''2024-01-02T01:00:00.000Z'')))
     = text_str (buildNotification (scrapedAt (lit ''Final exam schedule announced'')
        (lit ''2024-01-01T00:00:00.000Z'')))"
    by (simp add: buildNotification_def scrapedAt_def)
  show "dateValue sampleEnv
        (timestamp (buildNotification (scrapedAt (lit ''Final exam schedule announced'')
           (lit ''2024-01-01T00:00:00.000Z''))))
     = Some (now sampleEnv - 25 * 60 * 60 * 1000)"
    by (simp add: buildNotification_def scrapedAt_def sampleEnv_def sampleDateValue_def)
  show "newNotifications sampleEnv
        [buildNotification (scrapedAt (lit ''Final exam schedule announced'')
           (lit ''2024-01-02T01:00:00.000Z''))]
        [buildNotification (scrapedAt (lit ''Final exam schedule announced'')
           (lit ''2024-01-01T00:00:00.000Z''))]
     = []"
    by (simp add: newNotifications_def buildNotification_sample_id)
qed

section \<open>Subject of the message\<close>

lemma numberToString_digit: "n < 10 \<Longrightarrow> numberToString n = [0x30 + of_nat n]"
  by (simp add: numberToString.simps)

text \<open>
  C8: the message that \<open>sendEmailNotification\<close> hands to the mail service has the subject
  "BAOU: ", the number of new notices in decimal, " New Notification", an "s" unless the
  number is 1, and " (URGENT)" exactly when one of the notices is urgent.
\<close>

theorem emailSubject_format:
  "outbox (snd (sendEmailNotification e w ns)) = outbox w @ [buildEmailData e ns]
   \<and> subject (buildEmailData e ns) =
       lit ''BAOU: '' @ numberToString (length ns) @ lit '' New Notification''
       @ (if length ns \<noteq> 1 then lit ''s'' else [])
       @ (if \<exists>n \<in> set ns. isUrgent n then lit '' (URGENT)'' else [])"
  by (simp add: sendEmailNotification_def Let_def buildEmailData_def emailSubject_def
      list_ex_iff)

theorem emailSubject_format_witness:
  "subject (buildEmailData sampleEnv [sampleNotice\<lparr>isUrgent := True\<rparr>])
     = lit ''BAOU: 1 New Notification (URGENT)''
   \<and> subject (buildEmailData sampleEnv (replicate 12 sampleNotice))
     = lit ''BAOU: 12 New Notifications''"
proof -
  have u: "\<not> isUrgent sampleNotice" by (simp add: sampleNotice_def)
  have 1: "numberToString (Suc 0) = lit ''1''"
    by (simp add: numberToString.simps lit_def)
  have 12: "numberToString 12 = lit ''12''"
    by (simp add: numberToString.simps lit_def)
  show ?thesis
    using emailSubject_format [of sampleEnv sampleWorld "[sampleNotice\<lparr>isUrgent := True\<rparr>]"]
      emailSubject_format [of sampleEnv sampleWorld "replicate 12 sampleNotice"] u
    by (simp add: 1 12) (simp add: lit_def)
qed

section \<open>Loading and saving the history\<close>

lemma loadFailed_fst: "fst (loadFailed err w) = []"
  by (simp add: loadFailed_def)

lemma loadFailed_snd:
  "files (snd (loadFailed err w)) = files w"
  "outbox (snd (loadFailed err w)) = outbox w"
  "fsCalls (snd (loadFailed err w)) = fsCalls w"
  by (simp_all add: loadFailed_def)

lemma loadPreviousNotifications_world:
  "files (snd (loadPreviousNotifications e w)) = files w"
  "outbox (snd (loadPreviousNotifications e w)) = outbox w"
  "fsCalls (snd (loadPreviousNotifications e w)) = fsCalls w @ [ReadFile storageFile]"
  by (simp_all add: loadPreviousNotifications_def readFile_def Let_def loadFailed_snd
      split: option.splits)

lemma loadPreviousNotifications_unreadable:
  "readFault e storageFile \<noteq> None \<or> files w storageFile = None
     \<Longrightarrow> fst (loadPreviousNotifications e w) = []"
  by (auto simp: loadPreviousNotifications_def readFile_def Let_def loadFailed_fst
      split: option.splits)

lemma loadPreviousNotifications_unparsable:
  "files w storageFile = Some data \<Longrightarrow> jsonParse e data = None
     \<Longrightarrow> fst (loadPreviousNotifications e w) = []"
  by (auto simp: loadPreviousNotifications_def readFile_def Let_def loadFailed_fst
      split: option.splits)

lemma loadPreviousNotifications_parsed:
  "readFault e storageFile = None \<Longrightarrow> files w storageFile = Some old
     \<Longrightarrow> jsonParse e old = Some hist \<Longrightarrow> fst (loadPreviousNotifications e w) = hist"
  by (simp add: loadPreviousNotifications_def readFile_def Let_def)

lemma saveNotifications_backup_rejected:
  assumes "writeFault e backupPath \<noteq> None"
  shows "files (saveNotifications e w ns) storageFile = files w storageFile"
    and "outbox (saveNotifications e w ns) = outbox w"
    and "fsCalls (saveNotifications e w ns)
           = fsCalls w @ [WriteFile backupPath (jsonStringify e ns)]"
  using assms
  by (auto simp: saveNotifications_def writeFile_def Let_def backupPath_def lit_def
      split: write_fault.splits)

lemma saveNotifications_backup_open:
  assumes "writeFault e backupPath = Some (RejectedOnOpen code)"
  shows "files (saveNotifications e w ns) = files w"
  using assms
  by (simp add: saveNotifications_def writeFile_def Let_def backupPath_def)

lemma saveNotifications_backup_write:
  assumes "writeFault e backupPath = Some (RejectedOnWrite code left)"
  shows "files (saveNotifications e w ns) = (files w)(backupPath \<mapsto> left)"
  using assms
  by (simp add: saveNotifications_def writeFile_def Let_def backupPath_def)

lemma saveNotifications_main_rejected:
  assumes "writeFault e backupPath = None" and "writeFault e storageFile \<noteq> None"
  shows "files (saveNotifications e w ns) backupPath = Some (jsonStringify e ns)"
    and "outbox (saveNotifications e w ns) = outbox w"
    and "fsCalls (saveNotifications e w ns)
           = fsCalls w @ [WriteFile backupPath (jsonStringify e ns),
                          WriteFile storageFile (jsonStringify e ns)]"
  using assms
  by (auto simp: saveNotifications_def writeFile_def Let_def backupPath_def lit_def
      split: write_fault.splits)

lemma saveNotifications_main_open:
  assumes "writeFault e backupPath = None"
    and "writeFault e storageFile = Some (RejectedOnOpen code)"
  shows "files (saveNotifications e w ns) = (files w)(backupPath \<mapsto> jsonStringify e ns)"
  using assms
  by (simp add: saveNotifications_def writeFile_def Let_def backupPath_def)

lemma saveNotifications_main_write:
  assumes "writeFault e backupPath = None"
    and "writeFault e storageFile = Some (RejectedOnWrite code left)"
  shows "files (saveNotifications e w ns)
           = (files w)(backupPath \<mapsto> jsonStringify e ns, storageFile \<mapsto> left)"
  using assms
  by (simp add: saveNotifications_def writeFile_def Let_def backupPath_def)

lemma saveNotifications_written:
  assumes "writeFault e backupPath = None" and "writeFault e storageFile = None"
  shows "files (saveNotifications e w ns)
           = (files w)(backupPath \<mapsto> jsonStringify e ns, storageFile \<mapsto> jsonStringify e ns)"
    and "outbox (saveNotifications e w ns) = outbox w"
    and "fsCalls (saveNotifications e w ns)
           = fsCalls w @ [WriteFile backupPath (jsonStringify e ns),
                          WriteFile storageFile (jsonStringify e ns)]"
  using assms
  by (auto simp: saveNotifications_def writeFile_def Let_def backupPath_def)

lemma sample_ids: "sampleStringify [sampleNotice] = lit ''[RmluYWwgZXhh]''"
  by (simp add: sampleStringify_def sampleNotice_def lit_def)

lemma backupPath_neq: "backupPath \<noteq> storageFile"
  by (simp add: backupPath_def lit_def)

text \<open>
  C9: whenever reading the history file fails (the file is missing or the file system
  rejects the read) or its content does not parse, \<open>loadPreviousNotifications\<close> returns
  the empty list and leaves the files as they are, and against that result the diff keeps
  every current notice.
\<close>

theorem loadPreviousNotifications_failure:
  "readFault e storageFile \<noteq> None \<or> files w storageFile = None
     \<or> (\<exists>data. files w storageFile = Some data \<and> jsonParse e data = None)
   \<longrightarrow> fst (loadPreviousNotifications e w) = []
       \<and> files (snd (loadPreviousNotifications e w)) = files w
       \<and> newNotifications e current (fst (loadPreviousNotifications e w)) = current"
proof
  assume "readFault e storageFile \<noteq> None \<or> files w storageFile = None
     \<or> (\<exists>data. files w storageFile = Some data \<and> jsonParse e data = None)"
  then have "fst (loadPreviousNotifications e w) = []"
    using loadPreviousNotifications_unreadable loadPreviousNotifications_unparsable
    by blast
  then show "fst (loadPreviousNotifications e w) = []
       \<and> files (snd (loadPreviousNotifications e w)) = files w
       \<and> newNotifications e current (fst (loadPreviousNotifications e w)) = current"
    by (simp add: loadPreviousNotifications_world newNotifications_Nil)
qed

theorem loadPreviousNotifications_failure_witness:
  "files corruptWorld storageFile = Some (lit ''[{'')
   \<and> jsonParse sampleEnv (lit ''[{'') = None
   \<and> fst (loadPreviousNotifications sampleEnv corruptWorld) = []
   \<and> newNotifications sampleEnv [sampleNotice]
        (fst (loadPreviousNotifications sampleEnv corruptWorld)) = [sampleNotice]"
proof -
  have f: "files corruptWorld storageFile = Some (lit ''[{'')"
    by (simp add: corruptWorld_def)
  have p: "jsonParse sampleEnv (lit ''[{'') = None"
    by (simp add: sampleEnv_def sampleParse_def lit_def)
  show ?thesis
    using loadPreviousNotifications_failure [of sampleEnv corruptWorld "[sampleNotice]"] f p
    by blast
qed

text \<open>
  C7, as amended: \<open>saveNotifications\<close> writes the backup copy first and the history file
  after it, both with the same content. If the backup write is rejected, the write of
  the history file is not attempted and the history file keeps its content; the backup
  file is as it was when the write was rejected on opening, and holds what the rejected
  write left otherwise. If the backup write goes through and the write of the history
  file is rejected, the backup copy stays in place, and the history file is as it was or
  holds what the rejected write left. If neither is rejected both files hold the new
  content.
\<close>

theorem saveNotifications_sequential:
  "(writeFault e backupPath \<noteq> None \<longrightarrow>
      fsCalls (saveNotifications e w ns)
        = fsCalls w @ [WriteFile backupPath (jsonStringify e ns)]
      \<and> files (saveNotifications e w ns) storageFile = files w storageFile)
   \<and> (writeFault e backupPath = Some (RejectedOnOpen code) \<longrightarrow>
      files (saveNotifications e w ns) = files w)
   \<and> (writeFault e backupPath = Some (RejectedOnWrite code left) \<longrightarrow>
      files (saveNotifications e w ns) = (files w)(backupPath \<mapsto> left))
   \<and> (writeFault e backupPath = None \<and> writeFault e storageFile \<noteq> None \<longrightarrow>
      fsCalls (saveNotifications e w ns)
        = fsCalls w @ [WriteFile backupPath (jsonStringify e ns),
                       WriteFile storageFile (jsonStringify e ns)]
      \<and> files (saveNotifications e w ns) backupPath = Some (jsonStringify e ns))
   \<and> (writeFault e backupPath = None
        \<and> writeFault e storageFile = Some (RejectedOnOpen code) \<longrightarrow>
      files (saveNotifications e w ns) = (files w)(backupPath \<mapsto> jsonStringify e ns))
   \<and> (writeFault e backupPath = None
        \<and> writeFault e storageFile = Some (RejectedOnWrite code left) \<longrightarrow>
      files (saveNotifications e w ns)
        = (files w)(backupPath \<mapsto> jsonStringify e ns, storageFile \<mapsto> left))
   \<and> (writeFault e backupPath = None \<and> writeFault e storageFile = None \<longrightarrow>
      fsCalls (saveNotifications e w ns)
        = fsCalls w @ [WriteFile backupPath (jsonStringify e ns),
                       WriteFile storageFile (jsonStringify e ns)]
      \<and> files (saveNotifications e w ns)
        = (files w)(backupPath \<mapsto> jsonStringify e ns, storageFile \<mapsto> jsonStringify e ns))"
  using saveNotifications_backup_rejected [of e w ns]
    saveNotifications_backup_open [of e code w ns]
    saveNotifications_backup_write [of e code left w ns]
    saveNotifications_main_rejected [of e w ns]
    saveNotifications_main_open [of e code w ns]
    saveNotifications_main_write [of e code left w ns]
    saveNotifications_written [of e w ns]
  by blast

theorem saveNotifications_sequential_witness:
  "writeFault sampleEnv backupPath = None \<and> writeFault sampleEnv storageFile = None
   \<and> files (saveNotifications sampleEnv sampleWorld [sampleNotice]) backupPath
       = Some (lit ''[RmluYWwgZXhh]'')
   \<and> files (saveNotifications sampleEnv sampleWorld [sampleNotice]) storageFile
       = Some (lit ''[RmluYWwgZXhh]'')
   \<and> writeFault diskFullEnv storageFile = Some (RejectedOnWrite (lit ''ENOSPC'') [])
   \<and> files (saveNotifications diskFullEnv sampleWorld [sampleNotice]) backupPath
       = Some (lit ''[RmluYWwgZXhh]'')
   \<and> files (saveNotifications diskFullEnv sampleWorld [sampleNotice]) storageFile
       = Some []"
proof -
  have w: "writeFault sampleEnv backupPath = None" "writeFault sampleEnv storageFile = None"
    by (simp_all add: sampleEnv_def)
  have s: "jsonStringify sampleEnv [sampleNotice] = lit ''[RmluYWwgZXhh]''"
    by (simp add: sampleEnv_def sample_ids)
  have d: "writeFault diskFullEnv backupPath = None"
    "writeFault diskFullEnv storageFile = Some (RejectedOnWrite (lit ''ENOSPC'') [])"
    using backupPath_neq by (simp_all add: diskFullEnv_def)
  have ds: "jsonStringify diskFullEnv [sampleNotice] = lit ''[RmluYWwgZXhh]''"
    by (simp add: diskFullEnv_def sampleEnv_def sample_ids)
  show ?thesis
    using saveNotifications_sequential [of sampleEnv sampleWorld "[sampleNotice]"] w s
      saveNotifications_sequential
        [of diskFullEnv sampleWorld "[sampleNotice]" "lit ''ENOSPC''" "[]"] d ds
      backupPath_neq
    by simp
qed

text \<open>
  The claim of C7 as stated fails: when the backup copy cannot be written and the history
  file could be, the only call to the file system is the write of the backup copy, and the
  history file keeps its old content.
\<close>

theorem saveNotifications_backup_fault_stops_save:
  "writeFault backupFaultEnv backupPath = Some (RejectedOnOpen (lit ''EACCES''))
   \<and> writeFault backupFaultEnv storageFile = None
   \<and> fsCalls (saveNotifications backupFaultEnv sampleWorld [sampleNotice])
       = [WriteFile backupPath (lit ''[RmluYWwgZXhh]'')]
   \<and> files (saveNotifications backupFaultEnv sampleWorld [sampleNotice]) storageFile
       = Some (lit ''[]'')"
proof -
  have b: "writeFault backupFaultEnv backupPath = Some (RejectedOnOpen (lit ''EACCES''))"
    by (simp add: backupFaultEnv_def backupPath_def)
  have m: "writeFault backupFaultEnv storageFile = None"
    by (simp add: backupFaultEnv_def lit_def)
  have s: "jsonStringify backupFaultEnv [sampleNotice] = lit ''[RmluYWwgZXhh]''"
    by (simp add: backupFaultEnv_def sampleEnv_def sample_ids)
  have "writeFault backupFaultEnv backupPath \<noteq> None" using b by simp
  from saveNotifications_backup_rejected [OF this, of sampleWorld "[sampleNotice]"] b m s
  show ?thesis by (simp add: sampleWorld_def)
qed

section \<open>The monitoring cycle\<close>

lemma fetchNotifications_world:
  "files (snd (fetchNotifications e w)) = files w"
  "outbox (snd (fetchNotifications e w)) = outbox w"
  "fsCalls (snd (fetchNotifications e w)) = fsCalls w"
  "fst (fetchNotifications e w) = map_option (map buildNotification) (page e)"
  by (simp_all add: fetchNotifications_def split: option.splits)

lemma sendEmailNotification_world:
  "files (snd (sendEmailNotification e w ns)) = files w"
  "outbox (snd (sendEmailNotification e w ns)) = outbox w @ [buildEmailData e ns]"
  "fsCalls (snd (sendEmailNotification e w ns)) = fsCalls w"
  "fst (sendEmailNotification e w ns) = mailAccepts e (buildEmailData e ns)"
  by (simp_all add: sendEmailNotification_def Let_def)

lemma saveNotifications_outbox: "outbox (saveNotifications e w ns) = outbox w"
  by (simp add: saveNotifications_def writeFile_def Let_def
      split: option.splits write_fault.splits)

text \<open>The cycle, with the threading of the world written out.\<close>

lemma monitorNotifications_unfold:
  "monitorNotifications e w =
     (let w1 = snd (loadPreviousNotifications e w);
          w2 = snd (fetchNotifications e w1);
          new = cycleNew e w;
          w3 = snd (sendEmailNotification e w2 new)
      in if new = [] then w2
         else if mailAccepts e (buildEmailData e new)
           then saveNotifications e w3 (new @ fst (loadPreviousNotifications e w))
           else w3)"
proof (cases "page e")
  case None
  then show ?thesis
    by (simp add: monitorNotifications_def cycleNew_def fetchNotifications_def Let_def
        case_prod_beta split: option.splits)
next
  case (Some items)
  then show ?thesis
    by (simp add: monitorNotifications_def cycleNew_def fetchNotifications_def Let_def
        sendEmailNotification_world case_prod_beta)
qed

lemma monitorNotifications_nothing_new:
  assumes "cycleNew e w = []"
  shows "outbox (monitorNotifications e w) = outbox w"
    and "files (monitorNotifications e w) = files w"
    and "fsCalls (monitorNotifications e w) = fsCalls w @ [ReadFile storageFile]"
  using assms
  by (simp_all add: monitorNotifications_unfold Let_def fetchNotifications_world
      loadPreviousNotifications_world)

lemma monitorNotifications_mail_rejected:
  assumes "cycleNew e w \<noteq> []" and "\<not> mailAccepts e (buildEmailData e (cycleNew e w))"
  shows "outbox (monitorNotifications e w) = outbox w @ [buildEmailData e (cycleNew e w)]"
    and "files (monitorNotifications e w) = files w"
    and "fsCalls (monitorNotifications e w) = fsCalls w @ [ReadFile storageFile]"
  using assms
  by (simp_all add: monitorNotifications_unfold Let_def fetchNotifications_world
      loadPreviousNotifications_world sendEmailNotification_world)

lemma monitorNotifications_mail_accepted:
  assumes "cycleNew e w \<noteq> []" and "mailAccepts e (buildEmailData e (cycleNew e w))"
  shows "outbox (monitorNotifications e w) = outbox w @ [buildEmailData e (cycleNew e w)]"
    and "writeFault e backupPath = None \<Longrightarrow> writeFault e storageFile = None \<Longrightarrow>
         files (monitorNotifications e w) =
           (files w)(backupPath \<mapsto>
                       jsonStringify e (cycleNew e w @ fst (loadPreviousNotifications e w)),
                     storageFile \<mapsto>
                       jsonStringify e (cycleNew e w @ fst (loadPreviousNotifications e w)))"
  using assms
  by (simp_all add: monitorNotifications_unfold Let_def fetchNotifications_world
      loadPreviousNotifications_world sendEmailNotification_world saveNotifications_outbox
      saveNotifications_written)

text \<open>
  C6: a cycle that finds nothing new hands no message to the mail service, writes no file
  and leaves the files as they are (this includes the cycle whose fetch fails). A cycle
  that finds new notices hands over one message; if the mail service rejects it, no file
  is written and the files stay as they are; if it is accepted and both writes go
  through, the history file (and its backup copy) holds the new notices, in the order of
  the diff, followed by the history that was loaded. The files therefore change only in a
  cycle that found a new notice and whose message was accepted. The history that is
  loaded is what the history file holds: when the file is read and parses to \<open>hist\<close>,
  the diff is taken against \<open>hist\<close> and the file written is the diff followed by
  \<open>hist\<close>.
\<close>

theorem monitorNotifications_history:
  "(cycleNew e w = [] \<longrightarrow>
      outbox (monitorNotifications e w) = outbox w
      \<and> files (monitorNotifications e w) = files w
      \<and> fsCalls (monitorNotifications e w) = fsCalls w @ [ReadFile storageFile])
   \<and> (cycleNew e w \<noteq> [] \<longrightarrow>
      outbox (monitorNotifications e w) = outbox w @ [buildEmailData e (cycleNew e w)])
   \<and> (cycleNew e w \<noteq> [] \<and> \<not> mailAccepts e (buildEmailData e (cycleNew e w)) \<longrightarrow>
      files (monitorNotifications e w) = files w
      \<and> fsCalls (monitorNotifications e w) = fsCalls w @ [ReadFile storageFile])
   \<and> (cycleNew e w \<noteq> [] \<and> mailAccepts e (buildEmailData e (cycleNew e w))
        \<and> writeFault e backupPath = None \<and> writeFault e storageFile = None \<longrightarrow>
      files (monitorNotifications e w) =
        (files w)(backupPath \<mapsto>
                    jsonStringify e (cycleNew e w @ fst (loadPreviousNotifications e w)),
                  storageFile \<mapsto>
                    jsonStringify e (cycleNew e w @ fst (loadPreviousNotifications e w))))
   \<and> (files (monitorNotifications e w) \<noteq> files w \<longrightarrow>
      cycleNew e w \<noteq> [] \<and> mailAccepts e (buildEmailData e (cycleNew e w)))
   \<and> (readFault e storageFile = None \<and> files w storageFile = Some old
        \<and> jsonParse e old = Some hist \<longrightarrow>
      fst (loadPreviousNotifications e w) = hist)
   \<and> (readFault e storageFile = None \<and> files w storageFile = Some old
        \<and> jsonParse e old = Some hist \<and> page e = Some items
        \<and> newNotifications e (map buildNotification items) hist \<noteq> []
        \<and> mailAccepts e
             (buildEmailData e (newNotifications e (map buildNotification items) hist))
        \<and> writeFault e backupPath = None \<and> writeFault e storageFile = None \<longrightarrow>
      files (monitorNotifications e w) storageFile
        = Some (jsonStringify e
                  (newNotifications e (map buildNotification items) hist @ hist)))"
proof (intro conjI impI)
  assume "cycleNew e w = []"
  then show "outbox (monitorNotifications e w) = outbox w"
    and "files (monitorNotifications e w) = files w"
    and "fsCalls (monitorNotifications e w) = fsCalls w @ [ReadFile storageFile]"
    by (rule monitorNotifications_nothing_new)+
next
  assume n: "cycleNew e w \<noteq> []"
  show "outbox (monitorNotifications e w) = outbox w @ [buildEmailData e (cycleNew e w)]"
  proof (cases "mailAccepts e (buildEmailData e (cycleNew e w))")
    case True
    with n show ?thesis by (rule monitorNotifications_mail_accepted)
  next
    case False
    with n show ?thesis by (rule monitorNotifications_mail_rejected)
  qed
next
  assume a: "cycleNew e w \<noteq> [] \<and> \<not> mailAccepts e (buildEmailData e (cycleNew e w))"
  then show "files (monitorNotifications e w) = files w"
    by (simp add: monitorNotifications_mail_rejected)
  from a show "fsCalls (monitorNotifications e w) = fsCalls w @ [ReadFile storageFile]"
    by (simp add: monitorNotifications_mail_rejected)
next
  assume "cycleNew e w \<noteq> [] \<and> mailAccepts e (buildEmailData e (cycleNew e w))
        \<and> writeFault e backupPath = None \<and> writeFault e storageFile = None"
  then show "files (monitorNotifications e w) =
        (files w)(backupPath \<mapsto>
                    jsonStringify e (cycleNew e w @ fst (loadPreviousNotifications e w)),
                  storageFile \<mapsto>
                    jsonStringify e (cycleNew e w @ fst (loadPreviousNotifications e w)))"
    by (simp add: monitorNotifications_mail_accepted)
next
  assume c: "files (monitorNotifications e w) \<noteq> files w"
  show "cycleNew e w \<noteq> []"
    using c monitorNotifications_nothing_new(2) by blast
  show "mailAccepts e (buildEmailData e (cycleNew e w))"
    using c monitorNotifications_nothing_new(2) monitorNotifications_mail_rejected(2)
    by blast
next
  assume "readFault e storageFile = None \<and> files w storageFile = Some old
        \<and> jsonParse e old = Some hist"
  then show "fst (loadPreviousNotifications e w) = hist"
    by (simp add: loadPreviousNotifications_parsed)
next
  assume a: "readFault e storageFile = None \<and> files w storageFile = Some old
        \<and> jsonParse e old = Some hist \<and> page e = Some items
        \<and> newNotifications e (map buildNotification items) hist \<noteq> []
        \<and> mailAccepts e
             (buildEmailData e (newNotifications e (map buildNotification items) hist))
        \<and> writeFault e backupPath = None \<and> writeFault e storageFile = None"
  then have l: "fst (loadPreviousNotifications e w) = hist"
    by (simp add: loadPreviousNotifications_parsed)
  with a have n: "cycleNew e w = newNotifications e (map buildNotification items) hist"
    by (simp add: cycleNew_def)
  from a n have "files (monitorNotifications e w) =
        (files w)(backupPath \<mapsto>
                    jsonStringify e (cycleNew e w @ fst (loadPreviousNotifications e w)),
                  storageFile \<mapsto>
                    jsonStringify e (cycleNew e w @ fst (loadPreviousNotifications e w)))"
    by (simp add: monitorNotifications_mail_accepted)
  then show "files (monitorNotifications e w) storageFile
        = Some (jsonStringify e
                  (newNotifications e (map buildNotification items) hist @ hist))"
    by (simp add: n l)
qed

lemma historyNotice_id: "id_str historyNotice = lit ''RXhhbS0yMDI0''"
  by (simp add: historyNotice_def buildNotification_def scrapedAt_def
      generateNotificationId_def lit_def utf8Bytes_def isHighSurrogate_def
      isLowSurrogate_def base64Char_def base64Alphabet_def)

lemma cycleNew_sample:
  "cycleNew sampleEnv sampleWorld
     = [buildNotification (scrapedAt (lit ''Final exam schedule announced'')
          (lit ''2024-01-02T01:00:00.000Z''))]"
  "cycleNew mailDownEnv sampleWorld
     = [buildNotification (scrapedAt (lit ''Final exam schedule announced'')
          (lit ''2024-01-02T01:00:00.000Z''))]"
  "fst (loadPreviousNotifications sampleEnv sampleWorld) = []"
  by (simp_all add: cycleNew_def mailDownEnv_def sampleEnv_def sampleWorld_def
      loadPreviousNotifications_def readFile_def Let_def sampleParse_def newNotifications_Nil)

theorem monitorNotifications_history_witness:
  "files (monitorNotifications sampleEnv sampleWorld) storageFile
     = Some (lit ''[RmluYWwgZXhh]'')
   \<and> files (monitorNotifications sampleEnv sampleWorld) \<noteq> files sampleWorld
   \<and> length (outbox (monitorNotifications mailDownEnv sampleWorld)) = 1
   \<and> files (monitorNotifications mailDownEnv sampleWorld) storageFile = Some (lit ''[]'')
   \<and> files historyWorld storageFile = Some (lit ''[RXhhbS0yMDI0]'')
   \<and> files (monitorNotifications sampleEnv historyWorld) storageFile
     = Some (lit ''[RmluYWwgZXhhRXhhbS0yMDI0]'')"
proof -
  let ?n = "buildNotification (scrapedAt (lit ''Final exam schedule announced'')
          (lit ''2024-01-02T01:00:00.000Z''))"
  have ok: "mailAccepts sampleEnv (buildEmailData sampleEnv [?n])"
    "writeFault sampleEnv backupPath = None" "writeFault sampleEnv storageFile = None"
    by (simp_all add: sampleEnv_def)
  have data: "jsonStringify sampleEnv [?n] = lit ''[RmluYWwgZXhh]''"
    by (simp add: sampleEnv_def sampleStringify_def buildNotification_sample_id)
       (simp add: lit_def)
  have 1: "files (monitorNotifications sampleEnv sampleWorld) =
      (files sampleWorld)(backupPath \<mapsto> lit ''[RmluYWwgZXhh]'',
         storageFile \<mapsto> lit ''[RmluYWwgZXhh]'')"
    using monitorNotifications_history [of sampleEnv sampleWorld "[]" "[]" "[]"] ok data
    by (simp add: cycleNew_sample)
  have old: "files sampleWorld storageFile = Some (lit ''[]'')"
    by (simp add: sampleWorld_def)
  have neq: "lit ''[RmluYWwgZXhh]'' \<noteq> lit ''[]''"
    by (simp add: lit_def)
  have 2: "files (monitorNotifications sampleEnv sampleWorld) \<noteq> files sampleWorld"
  proof
    assume "files (monitorNotifications sampleEnv sampleWorld) = files sampleWorld"
    then have "files (monitorNotifications sampleEnv sampleWorld) storageFile
        = files sampleWorld storageFile" by simp
    with 1 old neq show False by simp
  qed
  have down: "\<not> mailAccepts mailDownEnv (buildEmailData mailDownEnv [?n])"
    by (simp add: mailDownEnv_def)
  have 3: "outbox (monitorNotifications mailDownEnv sampleWorld)
      = outbox sampleWorld @ [buildEmailData mailDownEnv [?n]]"
    and 4: "files (monitorNotifications mailDownEnv sampleWorld) = files sampleWorld"
    using monitorNotifications_history [of mailDownEnv sampleWorld "[]" "[]" "[]"] down
    by (simp_all add: cycleNew_sample)
  have hf: "files historyWorld storageFile = Some (lit ''[RXhhbS0yMDI0]'')"
    by (simp add: historyWorld_def)
  have hp: "jsonParse sampleEnv (lit ''[RXhhbS0yMDI0]'') = Some [historyNotice]"
    by (simp add: sampleEnv_def sampleParse_def) (simp add: lit_def)
  have pg: "page sampleEnv = Some [scrapedAt (lit ''Final exam schedule announced'')
                     (lit ''2024-01-02T01:00:00.000Z'')]"
    "readFault sampleEnv storageFile = None"
    by (simp_all add: sampleEnv_def)
  have tne: "text_str historyNotice \<noteq> text_str ?n"
    by (simp add: historyNotice_def buildNotification_def scrapedAt_def) (simp add: lit_def)
  have idn: "id_str historyNotice \<noteq> id_str ?n"
    by (simp add: historyNotice_id buildNotification_sample_id) (simp add: lit_def)
  have new: "newNotifications sampleEnv [?n] [historyNotice] = [?n]"
    using tne idn by (simp add: newNotifications_def)
  have data2: "jsonStringify sampleEnv [?n, historyNotice]
      = lit ''[RmluYWwgZXhhRXhhbS0yMDI0]''"
    by (simp add: sampleEnv_def sampleStringify_def buildNotification_sample_id
        historyNotice_id) (simp add: lit_def)
  note tied = monitorNotifications_history [of sampleEnv historyWorld
      "lit ''[RXhhbS0yMDI0]''" "[historyNotice]"
      "[scrapedAt (lit ''Final exam schedule announced'') (lit ''2024-01-02T01:00:00.000Z'')]",
      THEN conjunct2, THEN conjunct2, THEN conjunct2, THEN conjunct2, THEN conjunct2,
      THEN conjunct2]
  have "files (monitorNotifications sampleEnv historyWorld) storageFile
      = Some (jsonStringify sampleEnv
          (newNotifications sampleEnv (map buildNotification
             [scrapedAt (lit ''Final exam schedule announced'')
                (lit ''2024-01-02T01:00:00.000Z'')]) [historyNotice] @ [historyNotice]))"
    by (rule tied [THEN mp]) (simp add: hf hp pg new ok)
  then have 5: "files (monitorNotifications sampleEnv historyWorld) storageFile
      = Some (lit ''[RmluYWwgZXhhRXhhbS0yMDI0]'')"
    by (simp add: new data2)
  show ?thesis
    using 1 2 3 4 5 hf old by (simp add: sampleWorld_def)
qed

end
